theory Spec2Isabelle
  imports Complex_Main
begin

section \<open>The special-relativity simulation (src/src/App.jsx)\<close>

text \<open>
  The component \<^verbatim>\<open>SpecialRelativitySimulation\<close> keeps six pieces of React state and two
  refs. JavaScript numbers are modelled as exact reals: \<^verbatim>\<open>NaN\<close> and the infinities have
  no counterpart, so every statement about \<^verbatim>\<open>gamma\<close> is made for velocities strictly
  between \<open>-1\<close> and \<open>1\<close>, where the source divides by a positive square root.
  Timestamps are the milliseconds that \<^verbatim>\<open>requestAnimationFrame\<close> hands to its callback.
  A handler is modelled together with the effects React runs after it: a state of the
  model is a state in which all effects have run.
\<close>

subsection \<open>State\<close>

datatype view = Length | Time

text \<open>
  The fields \<open>frames\<close> and \<open>nextHandle\<close> are the host's side of
  \<^verbatim>\<open>requestAnimationFrame\<close>: the handles whose callback is still pending, and the next
  handle to hand out (handles are positive).
\<close>

record sim =
  velocity :: real
  sliderValue :: real
  viewMode :: view
  isRunning :: bool
  useLogarithmic :: bool
  elapsedTime :: real
  animationRef :: "nat option"
  lastTimeRef :: real
  frames :: "nat list"
  nextHandle :: nat

definition initial :: sim where
  "initial =
     \<lparr>velocity = 0.5, sliderValue = 0.5, viewMode = Length, isRunning = False,
      useLogarithmic = False, elapsedTime = 0, animationRef = None, lastTimeRef = 0,
      frames = [], nextHandle = 1\<rparr>"

subsection \<open>Relativistic factors (lines 17 to 19)\<close>

definition gamma :: "real \<Rightarrow> real" where
  "gamma v = 1 / sqrt (1 - v * v)"

definition lengthContraction :: "real \<Rightarrow> real" where
  "lengthContraction v = 1 / gamma v"

definition timeDilation :: "real \<Rightarrow> real" where
  "timeDilation v = gamma v"

subsection \<open>Slider to velocity (lines 22 to 58)\<close>

text \<open>
  \<open>newVelocity\<close> is the value the mapping effect passes to \<^verbatim>\<open>setVelocity\<close>, with the
  source's constants and its order of operations; \<^verbatim>\<open>Math.pow(x, 4)\<close> is \<open>x ^ 4\<close>.
\<close>

definition newVelocity :: "bool \<Rightarrow> real \<Rightarrow> real" where
  "newVelocity logarithmic slider =
     (if logarithmic then
        (let minVelocity = 0.9; maxVelocity = 0.9999; exponent = (4::nat);
             mappedValue = 1 - (1 - slider) ^ exponent
         in minVelocity + (maxVelocity - minVelocity) * mappedValue)
      else
        (let minVelocity = 0.1; maxVelocity = 0.9
         in minVelocity + (maxVelocity - minVelocity) * slider))"

definition velocityEffect :: "sim \<Rightarrow> sim" where
  "velocityEffect s = s\<lparr>velocity := newVelocity (useLogarithmic s) (sliderValue s)\<rparr>"

text \<open>
  React runs an effect after a render in which one of its dependencies differs from the
  previous render: \<open>old\<close> is the state of the previous render, \<open>new\<close> the state after the
  handler's updates.
\<close>

definition commitVelocity :: "sim \<Rightarrow> sim \<Rightarrow> sim" where
  "commitVelocity old new =
     (if sliderValue new = sliderValue old \<and> useLogarithmic new = useLogarithmic old
      then new else velocityEffect new)"

text \<open>The argument of \<open>handleSliderChange\<close> is the number \<^verbatim>\<open>parseFloat\<close> returned.\<close>

definition handleSliderChange :: "real \<Rightarrow> sim \<Rightarrow> sim" where
  "handleSliderChange newValue s = commitVelocity s (s\<lparr>sliderValue := newValue\<rparr>)"

definition toggleScale :: "sim \<Rightarrow> sim" where
  "toggleScale s =
     commitVelocity s (s\<lparr>useLogarithmic := \<not> useLogarithmic s, sliderValue := 0.5\<rparr>)"

subsection \<open>The animation loop (lines 61 to 99)\<close>

definition requestAnimationFrame :: "sim \<Rightarrow> nat \<times> sim" where
  "requestAnimationFrame s =
     (nextHandle s, s\<lparr>frames := frames s @ [nextHandle s], nextHandle := Suc (nextHandle s)\<rparr>)"

definition cancelAnimationFrame :: "nat option \<Rightarrow> sim \<Rightarrow> sim" where
  "cancelAnimationFrame h s =
     (case h of None \<Rightarrow> s | Some k \<Rightarrow> s\<lparr>frames := removeAll k (frames s)\<rparr>)"

text \<open>
  The frame callback. \<^verbatim>\<open>!lastTimeRef.current\<close> holds exactly when the ref is \<open>0\<close>.
  The callback tests neither \<open>isRunning\<close> nor anything else before it updates the state.
\<close>

definition animate :: "real \<Rightarrow> sim \<Rightarrow> sim" where
  "animate timestamp s =
     (let s1 = (if lastTimeRef s = 0 then s\<lparr>lastTimeRef := timestamp\<rparr> else s);
          deltaTime = timestamp - lastTimeRef s1;
          s2 = s1\<lparr>lastTimeRef := timestamp\<rparr>;
          s3 = s2\<lparr>elapsedTime := elapsedTime s2 + deltaTime / 1000\<rparr>;
          (h, s4) = requestAnimationFrame s3
      in s4\<lparr>animationRef := Some h\<rparr>)"

definition animationEffect :: "sim \<Rightarrow> sim" where
  "animationEffect s =
     (if \<not> isRunning s then s
      else (let (h, s1) = requestAnimationFrame s in s1\<lparr>animationRef := Some h\<rparr>))"

definition animationCleanup :: "sim \<Rightarrow> sim" where
  "animationCleanup s =
     (case animationRef s of
        None \<Rightarrow> s
      | Some k \<Rightarrow> if k \<noteq> 0 then cancelAnimationFrame (Some k) s else s)"

text \<open>
  The animation effect depends on \<open>isRunning\<close> alone. Its cleanup exists when the previous
  run of the effect got past the early return, that is when \<open>isRunning\<close> was true.
\<close>

definition commitRunning :: "sim \<Rightarrow> sim \<Rightarrow> sim" where
  "commitRunning old new =
     (if isRunning new = isRunning old then new
      else animationEffect (if isRunning old then animationCleanup new else new))"

definition toggleAnimation :: "sim \<Rightarrow> sim" where
  "toggleAnimation s =
     (let s1 = (if isRunning s
                then (cancelAnimationFrame (animationRef s) s)\<lparr>lastTimeRef := 0\<rparr>
                else s)
      in commitRunning s (s1\<lparr>isRunning := \<not> isRunning s\<rparr>))"

definition resetSimulation :: "sim \<Rightarrow> sim" where
  "resetSimulation s =
     (let s1 = s\<lparr>isRunning := False\<rparr>;
          s2 = cancelAnimationFrame (animationRef s1) s1;
          s3 = s2\<lparr>elapsedTime := 0\<rparr>;
          s4 = s3\<lparr>lastTimeRef := 0\<rparr>
      in commitRunning s s4)"

text \<open>A run of frame callbacks, one per timestamp, in order.\<close>

fun ticks :: "real list \<Rightarrow> sim \<Rightarrow> sim" where
  "ticks [] s = s"
| "ticks (t # ts) s = ticks ts (animate t s)"

subsection \<open>Clock readings (lines 104 to 106)\<close>

text \<open>
  \<^verbatim>\<open>x.toFixed(f)\<close> prints the integer \<open>n\<close> for which \<open>n / 10 ^ f\<close> is nearest to \<open>x\<close>
  (the larger one on a tie, the sign handled apart) with a point before its last \<open>f\<close>
  digits; \<open>toFixed f x\<close> is that integer, with the sign.
\<close>

definition toFixed :: "nat \<Rightarrow> real \<Rightarrow> int" where
  "toFixed f x = (if x < 0 then - \<lfloor>- x * 10 ^ f + 1 / 2\<rfloor> else \<lfloor>x * 10 ^ f + 1 / 2\<rfloor>)"

definition stationaryTime :: "sim \<Rightarrow> int" where
  "stationaryTime s = toFixed 2 (elapsedTime s)"

definition movingTime :: "sim \<Rightarrow> int" where
  "movingTime s = toFixed 2 (elapsedTime s / timeDilation (velocity s))"

section \<open>Properties\<close>

subsection \<open>Kinematic factors\<close>

lemma gamma_pos: "\<bar>v\<bar> < 1 \<Longrightarrow> 0 < gamma v"
proof -
  assume "\<bar>v\<bar> < 1"
  then have "v\<^sup>2 < 1"
    by (simp add: abs_square_less_1)
  then show ?thesis
    by (simp add: gamma_def power2_eq_square)
qed

text \<open>
  C1: for every velocity \<open>v\<close> strictly between 0 and 1, \<open>gamma\<close> is \<open>1 / sqrt (1 - v\<^sup>2)\<close>,
  the length contraction times \<open>gamma\<close> is 1, and the time dilation is \<open>gamma\<close> itself.
\<close>

theorem kinematic_factors:
  assumes "0 < v" and "v < 1"
  shows "gamma v = 1 / sqrt (1 - v\<^sup>2)
       \<and> lengthContraction v * gamma v = 1
       \<and> timeDilation v = gamma v"
proof (intro conjI)
  show "gamma v = 1 / sqrt (1 - v\<^sup>2)"
    by (simp add: gamma_def power2_eq_square)
next
  from assms have "\<bar>v\<bar> < 1" by simp
  then have "gamma v \<noteq> 0" using gamma_pos [of v] by simp
  then show "lengthContraction v * gamma v = 1"
    by (simp add: lengthContraction_def)
next
  show "timeDilation v = gamma v"
    by (simp add: timeDilation_def)
qed

theorem kinematic_factors_witness:
  "(0::real) < 3 / 5 \<and> (3 / 5 :: real) < 1
   \<and> gamma (3 / 5) = 1 / sqrt (1 - (3 / 5)\<^sup>2)
   \<and> lengthContraction (3 / 5) * gamma (3 / 5) = 1
   \<and> timeDilation (3 / 5) = gamma (3 / 5)"
proof -
  have a: "(0::real) < 3 / 5" and b: "(3 / 5 :: real) < 1"
    by simp_all
  from a b kinematic_factors [OF a b] show ?thesis
    by blast
qed

subsection \<open>The velocity map\<close>

text \<open>
  C3, as the code has it: in logarithmic mode the effect computes
  \<open>0.9 + 0.0999 * (1 - (1 - x) ^ 4)\<close>, which is \<open>0.9\<close> at \<open>0\<close> and \<open>0.9999\<close> at \<open>1\<close>;
  the step from \<open>0.8\<close> to \<open>0.9\<close> changes the velocity by less than the step from \<open>0.4\<close>
  to \<open>0.5\<close> (the map flattens towards the speed of light).
\<close>

theorem logarithmic_map:
  "newVelocity True x = 0.9 + 0.0999 * (1 - (1 - x) ^ 4)
   \<and> newVelocity True 0 = 0.9
   \<and> newVelocity True 1 = 0.9999
   \<and> newVelocity True 0.9 - newVelocity True 0.8
       < newVelocity True 0.5 - newVelocity True 0.4"
proof (intro conjI)
  show "newVelocity True x = 0.9 + 0.0999 * (1 - (1 - x) ^ 4)"
    by (simp add: newVelocity_def Let_def)
  show "newVelocity True 0 = 0.9"
    by (simp add: newVelocity_def Let_def)
  show "newVelocity True 1 = 0.9999"
    by (simp add: newVelocity_def Let_def)
  show "newVelocity True 0.9 - newVelocity True 0.8
        < newVelocity True 0.5 - newVelocity True 0.4"
    by (simp add: newVelocity_def Let_def power4_eq_xxxx)
qed

text \<open>
  C3 as the specification states it asks for the opposite inequality between the two
  steps; it fails.
\<close>

theorem logarithmic_map_steps_counterexample:
  "\<not> (newVelocity True 0 = 0.9 \<and> newVelocity True 1 = 0.9999
      \<and> newVelocity True 0.9 - newVelocity True 0.8
          > newVelocity True 0.5 - newVelocity True 0.4)"
  by (simp add: newVelocity_def Let_def power4_eq_xxxx)

text \<open>
  C8: toggling the scale sets the slider to \<open>0.5\<close> and flips the mode, whatever the
  slider was, and the velocity afterwards is the new mode's value at \<open>0.5\<close>.
\<close>

theorem toggle_scale_resets_slider:
  "sliderValue (toggleScale s) = 0.5
   \<and> useLogarithmic (toggleScale s) = (\<not> useLogarithmic s)
   \<and> velocity (toggleScale s) = newVelocity (\<not> useLogarithmic s) 0.5"
  by (simp add: toggleScale_def commitVelocity_def velocityEffect_def)

text \<open>
  C9: switching from linear to logarithmic mode leaves the velocity at
  \<open>0.9 + 0.0999 * (1 - 0.5 ^ 4) = 0.99365625\<close>, which is not the midpoint \<open>0.94995\<close> of the
  logarithmic range and lies above every velocity of the linear mode (at most \<open>0.9\<close>).
\<close>

theorem switch_to_logarithmic:
  assumes "\<not> useLogarithmic s"
  shows "velocity (toggleScale s) = 0.9 + 0.0999 * (1 - 0.5 ^ 4)
       \<and> velocity (toggleScale s) = 0.99365625
       \<and> velocity (toggleScale s) \<noteq> 0.94995
       \<and> (\<forall>x. 0 \<le> x \<and> x \<le> 1 \<longrightarrow>
             newVelocity False x \<le> 0.9 \<and> newVelocity False x < velocity (toggleScale s))"
proof -
  have v: "velocity (toggleScale s) = 0.99365625"
    using assms
    by (simp add: toggleScale_def commitVelocity_def velocityEffect_def newVelocity_def
        Let_def power4_eq_xxxx)
  have lin: "newVelocity False x \<le> 0.9" if "0 \<le> x" "x \<le> 1" for x
    using that by (simp add: newVelocity_def Let_def)
  show ?thesis
  proof (intro conjI allI impI)
    show "velocity (toggleScale s) = 0.9 + 0.0999 * (1 - 0.5 ^ 4)"
      by (simp add: v power4_eq_xxxx)
    show "velocity (toggleScale s) = 0.99365625"
      by (rule v)
    show "velocity (toggleScale s) \<noteq> 0.94995"
      by (simp add: v)
  next
    fix x :: real
    assume "0 \<le> x \<and> x \<le> 1"
    then show "newVelocity False x \<le> 0.9"
      using lin by blast
  next
    fix x :: real
    assume "0 \<le> x \<and> x \<le> 1"
    then have "newVelocity False x \<le> 0.9"
      using lin by blast
    then show "newVelocity False x < velocity (toggleScale s)"
      by (simp add: v)
  qed
qed

theorem switch_to_logarithmic_witness:
  "\<not> useLogarithmic initial
   \<and> velocity (toggleScale initial) = 0.99365625
   \<and> newVelocity False 1 \<le> 0.9
   \<and> newVelocity False 1 < velocity (toggleScale initial)"
proof -
  have a: "\<not> useLogarithmic initial"
    by (simp add: initial_def)
  have b: "(0::real) \<le> 1 \<and> (1::real) \<le> 1"
    by simp
  from a b switch_to_logarithmic [OF a] show ?thesis
    by blast
qed

text \<open>
  C10: a slider change leaves the clock alone: the elapsed time, the running flag, the
  last tick's timestamp, the frame handle and the pending frames are what they were.
\<close>

theorem slider_change_keeps_clock:
  "elapsedTime (handleSliderChange x s) = elapsedTime s
   \<and> isRunning (handleSliderChange x s) = isRunning s
   \<and> lastTimeRef (handleSliderChange x s) = lastTimeRef s
   \<and> animationRef (handleSliderChange x s) = animationRef s
   \<and> frames (handleSliderChange x s) = frames s
   \<and> nextHandle (handleSliderChange x s) = nextHandle s"
  by (simp add: handleSliderChange_def commitVelocity_def velocityEffect_def)

subsection \<open>The clock\<close>

text \<open>What a frame callback, Start, Pause and Reset do to the fields of the clock.\<close>

lemmas clock_defs = animate_def requestAnimationFrame_def cancelAnimationFrame_def
  animationEffect_def animationCleanup_def commitRunning_def toggleAnimation_def
  resetSimulation_def

lemma animate_lastTimeRef: "lastTimeRef (animate t s) = t"
  by (simp add: animate_def requestAnimationFrame_def Let_def)

lemma animate_elapsedTime:
  "elapsedTime (animate t s) =
     elapsedTime s + (t - (if lastTimeRef s = 0 then t else lastTimeRef s)) / 1000"
  by (simp add: animate_def requestAnimationFrame_def Let_def)

lemma animate_isRunning: "isRunning (animate t s) = isRunning s"
  by (simp add: animate_def requestAnimationFrame_def Let_def)

lemma ticks_append: "ticks (as @ bs) s = ticks bs (ticks as s)"
  by (induction as arbitrary: s) simp_all

lemma ticks_isRunning: "isRunning (ticks ts s) = isRunning s"
  by (induction ts arbitrary: s) (simp_all add: animate_isRunning)

lemma ticks_lastTimeRef: "ts \<noteq> [] \<Longrightarrow> lastTimeRef (ticks ts s) = last ts"
  by (induction ts arbitrary: s) (auto simp: animate_lastTimeRef)

lemma pause_state:
  "isRunning s \<Longrightarrow>
     \<not> isRunning (toggleAnimation s) \<and> elapsedTime (toggleAnimation s) = elapsedTime s
     \<and> lastTimeRef (toggleAnimation s) = 0"
  by (simp add: clock_defs Let_def split: option.splits)

lemma start_state:
  "\<not> isRunning s \<Longrightarrow>
     isRunning (toggleAnimation s) \<and> elapsedTime (toggleAnimation s) = elapsedTime s
     \<and> lastTimeRef (toggleAnimation s) = lastTimeRef s
     \<and> animationRef (toggleAnimation s) = Some (nextHandle s)
     \<and> frames (toggleAnimation s) = frames s @ [nextHandle s]"
  by (simp add: clock_defs Let_def split: option.splits)

lemma reset_state:
  "\<not> isRunning (resetSimulation s) \<and> elapsedTime (resetSimulation s) = 0
   \<and> lastTimeRef (resetSimulation s) = 0"
  by (simp add: clock_defs Let_def split: option.splits)

text \<open>
  Pause relies on cancelling the pending frame: the handle in \<open>animationRef\<close> leaves the
  host's list.
\<close>

lemma pause_cancels_frame:
  "isRunning s \<Longrightarrow> animationRef s = Some h \<Longrightarrow> frames (toggleAnimation s) = removeAll h (frames s)"
  by (simp add: clock_defs Let_def split: option.splits)

text \<open>
  From a cleared baseline, four callbacks one second apart that start at a positive
  timestamp add three seconds.
\<close>

lemma ticks_from_positive_timestamp:
  assumes "0 < t" and "lastTimeRef s = 0"
  shows "elapsedTime (ticks [t, t + 1000, t + 2000, t + 3000] s) = elapsedTime s + 3"
  using assms by (simp add: animate_elapsedTime animate_lastTimeRef)

text \<open>
  C2, as the code has it: after Start from an Idle state with the baseline cleared, and
  for a first timestamp \<open>t > 0\<close>, the first callback stores \<open>t\<close> as the baseline and adds
  nothing; a callback that finds a baseline adds the difference to it, in seconds, and
  stores its own timestamp; and callbacks at \<open>t\<close>, \<open>t + 1000\<close>, \<open>t + 2000\<close>, \<open>t + 3000\<close>
  milliseconds add 3 seconds. The value \<open>0\<close> in \<open>lastTimeRef\<close> means that no baseline is set.
\<close>

theorem ticks_after_start:
  assumes "\<not> isRunning s" and "lastTimeRef s = 0" and "0 < t"
  shows "isRunning (toggleAnimation s)
       \<and> lastTimeRef (animate t (toggleAnimation s)) = t
       \<and> elapsedTime (animate t (toggleAnimation s)) = elapsedTime s
       \<and> (\<forall>now s'. lastTimeRef s' \<noteq> 0 \<longrightarrow>
             elapsedTime (animate now s') = elapsedTime s' + (now - lastTimeRef s') / 1000
             \<and> lastTimeRef (animate now s') = now)
       \<and> elapsedTime (ticks [t, t + 1000, t + 2000, t + 3000] (toggleAnimation s))
           = elapsedTime s + 3"
proof -
  have st: "isRunning (toggleAnimation s)" "elapsedTime (toggleAnimation s) = elapsedTime s"
    "lastTimeRef (toggleAnimation s) = 0"
    using assms(1,2) by (simp_all add: start_state)
  have first: "elapsedTime (animate t (toggleAnimation s)) = elapsedTime s"
    by (simp add: animate_elapsedTime st)
  have later: "elapsedTime (animate now s') = elapsedTime s' + (now - lastTimeRef s') / 1000
      \<and> lastTimeRef (animate now s') = now" if "lastTimeRef s' \<noteq> 0" for now s'
    using that by (simp add: animate_elapsedTime animate_lastTimeRef)
  have run: "elapsedTime (ticks [t, t + 1000, t + 2000, t + 3000] (toggleAnimation s))
      = elapsedTime s + 3"
    using ticks_from_positive_timestamp [OF assms(3) st(3)] by (simp only: st(2))
  from st(1) first later run show ?thesis
    by (simp add: animate_lastTimeRef)
qed

theorem ticks_after_start_witness:
  "\<not> isRunning initial \<and> lastTimeRef initial = 0 \<and> (0::real) < 1000
   \<and> elapsedTime (animate 1000 (toggleAnimation initial)) = 0
   \<and> lastTimeRef (animate 1000 (toggleAnimation initial)) \<noteq> 0
   \<and> elapsedTime (animate 2000 (animate 1000 (toggleAnimation initial))) = 1
   \<and> elapsedTime (ticks [1000, 1000 + 1000, 1000 + 2000, 1000 + 3000] (toggleAnimation initial)) = 3"
proof -
  have a: "\<not> isRunning initial" and b: "lastTimeRef initial = 0" and e: "elapsedTime initial = 0"
    by (simp_all add: initial_def)
  have c: "(0::real) < 1000"
    by simp
  note th = ticks_after_start [OF a b c]
  have first: "lastTimeRef (animate 1000 (toggleAnimation initial)) = 1000"
    "elapsedTime (animate 1000 (toggleAnimation initial)) = 0"
    using th e by simp_all
  have nz: "lastTimeRef (animate 1000 (toggleAnimation initial)) \<noteq> 0"
    using first by simp
  from th have "elapsedTime (animate 2000 (animate 1000 (toggleAnimation initial)))
      = elapsedTime (animate 1000 (toggleAnimation initial))
        + (2000 - lastTimeRef (animate 1000 (toggleAnimation initial))) / 1000"
    using nz by blast
  then have second: "elapsedTime (animate 2000 (animate 1000 (toggleAnimation initial))) = 1"
    by (simp add: first)
  from th e have run: "elapsedTime (ticks [1000, 1000 + 1000, 1000 + 2000, 1000 + 3000]
      (toggleAnimation initial)) = 3"
    by simp
  from a b c first nz second run show ?thesis
    by blast
qed

text \<open>
  C2 as the specification states it, with the first callback at timestamp 0, fails: that
  callback stores 0, the value that means no baseline, so the callback at 1000 sets the
  baseline again and adds nothing, and the elapsed time after 0, 1000, 2000, 3000 is 2.
\<close>

theorem ticks_from_zero_counterexample:
  "\<not> isRunning initial
   \<and> lastTimeRef (animate 0 (toggleAnimation initial)) = 0
   \<and> elapsedTime (ticks [0, 1000] (toggleAnimation initial)) = 0
   \<and> elapsedTime (ticks [0, 1000, 2000, 3000] (toggleAnimation initial)) = 2
   \<and> elapsedTime (ticks [0, 1000, 2000, 3000] (toggleAnimation initial)) \<noteq> 3"
  by (simp add: animate_elapsedTime animate_lastTimeRef start_state initial_def)

text \<open>
  The elapsed time does not decrease over callbacks whose timestamps do not decrease,
  starting from a cleared baseline or from a baseline that is not later than any of them.
\<close>

lemma ticks_mono:
  "sorted ts \<Longrightarrow> lastTimeRef s = 0 \<or> (\<forall>t\<in>set ts. lastTimeRef s \<le> t) \<Longrightarrow>
     elapsedTime s \<le> elapsedTime (ticks ts s)"
proof (induction ts arbitrary: s)
  case Nil
  then show ?case by simp
next
  case (Cons t ts)
  have step: "elapsedTime s \<le> elapsedTime (animate t s)"
    using Cons.prems(2) by (auto simp: animate_elapsedTime)
  have "sorted ts"
    using Cons.prems(1) by simp
  moreover have "\<forall>u\<in>set ts. lastTimeRef (animate t s) \<le> u"
    using Cons.prems(1) by (simp add: animate_lastTimeRef)
  ultimately have "elapsedTime (animate t s) \<le> elapsedTime (ticks ts (animate t s))"
    using Cons.IH by blast
  with step show ?case by simp
qed

text \<open>
  From a set baseline, a run of callbacks with nonzero timestamps adds exactly the
  difference between the last timestamp and the baseline, whatever the single steps are.
\<close>

lemma ticks_exact:
  "lastTimeRef s \<noteq> 0 \<Longrightarrow> 0 \<notin> set ts \<Longrightarrow>
     elapsedTime (ticks ts s) = elapsedTime s + (last (lastTimeRef s # ts) - lastTimeRef s) / 1000"
proof (induction ts arbitrary: s)
  case Nil
  then show ?case by simp
next
  case (Cons t ts)
  have t: "t \<noteq> 0" and rest: "0 \<notin> set ts"
    using Cons.prems(2) by auto
  have l: "lastTimeRef (animate t s) = t"
    by (rule animate_lastTimeRef)
  have "elapsedTime (ticks ts (animate t s))
      = elapsedTime (animate t s) + (last (t # ts) - t) / 1000"
    using Cons.IH [of "animate t s"] t rest by (simp only: l) simp
  moreover have "elapsedTime (animate t s) = elapsedTime s + (t - lastTimeRef s) / 1000"
    using Cons.prems(1) by (simp add: animate_elapsedTime)
  ultimately show ?case
    by (simp add: diff_divide_distrib)
qed

text \<open>
  C7: along a run of callbacks whose timestamps do not decrease (from a cleared baseline,
  or from one not later than the timestamps), the elapsed time after any prefix of the
  run is at most the elapsed time after the whole run, and the running flag is the one
  the run started with. Nothing is clamped or skipped: once a first callback has set the
  baseline, the rest of the run adds exactly the difference between its last timestamp
  and that baseline, however large (timestamps are nonzero, \<open>0\<close> being the value of a
  cleared baseline).
\<close>

theorem elapsed_monotone:
  assumes "sorted (as @ bs)"
    and "lastTimeRef s = 0 \<or> (\<forall>t\<in>set (as @ bs). lastTimeRef s \<le> t)"
  shows "elapsedTime (ticks as s) \<le> elapsedTime (ticks (as @ bs) s)
       \<and> isRunning (ticks (as @ bs) s) = isRunning s
       \<and> (as \<noteq> [] \<and> 0 \<notin> set (as @ bs) \<longrightarrow>
            elapsedTime (ticks (as @ bs) s)
              = elapsedTime (ticks as s) + (last (as @ bs) - last as) / 1000)"
proof -
  have sb: "sorted bs"
    using assms(1) by (simp add: sorted_append)
  have "lastTimeRef (ticks as s) = 0 \<or> (\<forall>t\<in>set bs. lastTimeRef (ticks as s) \<le> t)"
  proof (cases "as = []")
    case True
    with assms(2) show ?thesis by simp
  next
    case False
    then have "lastTimeRef (ticks as s) = last as"
      by (rule ticks_lastTimeRef)
    moreover have "\<forall>t\<in>set bs. last as \<le> t"
      using assms(1) False by (simp add: sorted_append)
    ultimately show ?thesis by simp
  qed
  with sb have mono: "elapsedTime (ticks as s) \<le> elapsedTime (ticks bs (ticks as s))"
    by (rule ticks_mono)
  have exact: "elapsedTime (ticks (as @ bs) s)
      = elapsedTime (ticks as s) + (last (as @ bs) - last as) / 1000"
    if ne: "as \<noteq> []" and nz: "0 \<notin> set (as @ bs)"
  proof -
    have l: "lastTimeRef (ticks as s) = last as"
      using ne by (rule ticks_lastTimeRef)
    have "last as \<in> set as"
      using ne by simp
    with nz have l0: "lastTimeRef (ticks as s) \<noteq> 0"
      by (auto simp: l)
    have "0 \<notin> set bs"
      using nz by simp
    with l0 have "elapsedTime (ticks bs (ticks as s))
        = elapsedTime (ticks as s) + (last (lastTimeRef (ticks as s) # bs) - lastTimeRef (ticks as s)) / 1000"
      by (rule ticks_exact)
    moreover have "last (last as # bs) = last (as @ bs)"
      using ne by (cases bs) simp_all
    ultimately show ?thesis
      by (simp add: ticks_append l)
  qed
  from mono exact show ?thesis
    by (simp add: ticks_append ticks_isRunning)
qed

theorem elapsed_monotone_witness:
  "sorted ([1000] @ [2000, 5000 :: real])
   \<and> lastTimeRef (toggleAnimation initial) = 0
   \<and> isRunning (toggleAnimation initial)
   \<and> [1000 :: real] \<noteq> []
   \<and> 0 \<notin> set ([1000] @ [2000, 5000 :: real])
   \<and> elapsedTime (ticks [1000] (toggleAnimation initial)) = 0
   \<and> elapsedTime (ticks [1000] (toggleAnimation initial))
       \<le> elapsedTime (ticks ([1000] @ [2000, 5000]) (toggleAnimation initial))
   \<and> elapsedTime (ticks ([1000] @ [2000, 5000]) (toggleAnimation initial)) = 4
   \<and> isRunning (ticks ([1000] @ [2000, 5000]) (toggleAnimation initial))"
proof -
  have a: "sorted ([1000] @ [2000, 5000 :: real])"
    by simp
  have b: "lastTimeRef (toggleAnimation initial) = 0"
    by (simp add: start_state initial_def)
  have c: "isRunning (toggleAnimation initial)"
    by (simp add: start_state initial_def)
  have d: "[1000 :: real] \<noteq> [] \<and> 0 \<notin> set ([1000] @ [2000, 5000 :: real])"
    by simp
  have e: "elapsedTime (ticks [1000] (toggleAnimation initial)) = 0"
    by (simp add: animate_elapsedTime start_state initial_def)
  note th = elapsed_monotone [OF a disjI1 [OF b]]
  from th d have "elapsedTime (ticks ([1000] @ [2000, 5000]) (toggleAnimation initial))
      = elapsedTime (ticks [1000] (toggleAnimation initial))
        + (last ([1000] @ [2000, 5000]) - last [1000]) / 1000"
    by blast
  then have f: "elapsedTime (ticks ([1000] @ [2000, 5000]) (toggleAnimation initial)) = 4"
    by (simp only: e) simp
  from th a b c d e f show ?thesis
    by simp
qed

text \<open>
  C6: Pause keeps the elapsed time, and one frame callback that still arrives after Pause,
  with any timestamp and from any running state, adds nothing to it.
\<close>

theorem stray_tick_after_pause:
  assumes "isRunning s"
  shows "elapsedTime (animate t (toggleAnimation s)) = elapsedTime s
       \<and> elapsedTime (toggleAnimation s) = elapsedTime s
       \<and> \<not> isRunning (toggleAnimation s)"
  using assms by (simp add: animate_elapsedTime pause_state)

theorem stray_tick_after_pause_witness:
  "isRunning (ticks [1000, 4000] (toggleAnimation initial))
   \<and> elapsedTime (ticks [1000, 4000] (toggleAnimation initial)) = 3
   \<and> elapsedTime (animate 9000 (toggleAnimation (ticks [1000, 4000] (toggleAnimation initial)))) = 3"
proof -
  have a: "isRunning (ticks [1000, 4000] (toggleAnimation initial))"
    by (simp add: animate_isRunning start_state initial_def)
  have b: "elapsedTime (ticks [1000, 4000] (toggleAnimation initial)) = 3"
    by (simp add: animate_elapsedTime animate_lastTimeRef start_state initial_def)
  from stray_tick_after_pause [OF a, of 9000] a b show ?thesis
    by simp
qed

text \<open>
  C5, as the code has it. The code has one handler for Start and Pause: called while
  running it pauses (the flag becomes false, the baseline is cleared, the elapsed time
  stays). A callback that arrives while not running, with the baseline cleared, leaves
  the flag and the elapsed time as they were, but stores its timestamp as the baseline
  and requests another frame. Every operation is a total function: none raises.
\<close>

theorem misordered_transitions:
  "(isRunning s \<longrightarrow>
      \<not> isRunning (toggleAnimation s) \<and> elapsedTime (toggleAnimation s) = elapsedTime s
      \<and> lastTimeRef (toggleAnimation s) = 0)
   \<and> (\<not> isRunning s \<and> lastTimeRef s = 0 \<longrightarrow>
      \<not> isRunning (animate t s) \<and> elapsedTime (animate t s) = elapsedTime s
      \<and> lastTimeRef (animate t s) = t
      \<and> animationRef (animate t s) = Some (nextHandle s)
      \<and> frames (animate t s) = frames s @ [nextHandle s])"
proof (intro conjI impI)
  assume "isRunning s"
  then show "\<not> isRunning (toggleAnimation s)" "elapsedTime (toggleAnimation s) = elapsedTime s"
    "lastTimeRef (toggleAnimation s) = 0"
    by (simp_all add: pause_state)
next
  assume "\<not> isRunning s \<and> lastTimeRef s = 0"
  then show "\<not> isRunning (animate t s)" "elapsedTime (animate t s) = elapsedTime s"
    by (simp_all add: animate_isRunning animate_elapsedTime)
next
  show "lastTimeRef (animate t s) = t"
    by (rule animate_lastTimeRef)
  show "animationRef (animate t s) = Some (nextHandle s)"
    by (simp add: animate_def requestAnimationFrame_def Let_def)
  show "frames (animate t s) = frames s @ [nextHandle s]"
    by (simp add: animate_def requestAnimationFrame_def Let_def)
qed

theorem misordered_transitions_witness:
  "isRunning (toggleAnimation initial)
   \<and> \<not> isRunning (toggleAnimation (toggleAnimation initial))
   \<and> lastTimeRef (toggleAnimation (toggleAnimation initial)) = 0
   \<and> \<not> isRunning initial \<and> lastTimeRef initial = 0
   \<and> elapsedTime (animate 1000 initial) = elapsedTime initial
   \<and> lastTimeRef (animate 1000 initial) = 1000
   \<and> frames (animate 1000 initial) = [1]"
proof -
  have a: "isRunning (toggleAnimation initial)"
    by (simp add: start_state initial_def)
  have b: "\<not> isRunning initial \<and> lastTimeRef initial = 0"
    by (simp add: initial_def)
  have c: "frames initial @ [nextHandle initial] = [1]"
    by (simp add: initial_def)
  from misordered_transitions [of "toggleAnimation initial" 1000]
    misordered_transitions [of initial 1000] a b c
  show ?thesis
    by simp
qed

text \<open>
  C5 as the specification states it fails: a callback at 1000 in the initial (Idle) state
  changes \<open>lastTimeRef\<close>, and the Start and Pause handler called while running changes
  the running flag.
\<close>

theorem misordered_transitions_counterexample:
  "\<not> isRunning initial
   \<and> lastTimeRef (animate 1000 initial) \<noteq> lastTimeRef initial
   \<and> isRunning (toggleAnimation initial)
   \<and> isRunning (toggleAnimation (toggleAnimation initial)) \<noteq> isRunning (toggleAnimation initial)"
  by (simp add: animate_lastTimeRef start_state pause_state initial_def)

subsection \<open>The moving observer's clock\<close>

lemma gamma_three_fifths: "gamma 0.6 = 1.25"
proof -
  have "1 - 0.6 * 0.6 = (0.8::real)\<^sup>2"
    by (simp add: power2_eq_square)
  then have sq: "sqrt (1 - 0.6 * 0.6) = (0.8::real)"
    by (simp only: real_sqrt_abs)
  show ?thesis
    by (simp only: gamma_def sq) simp
qed

text \<open>The integer that \<open>toFixed\<close> prints is within half a unit of the last digit.\<close>

lemma toFixed_near: "\<bar>real_of_int (toFixed f x) / 10 ^ f - x\<bar> \<le> 1 / (2 * 10 ^ f)"
proof -
  have p: "(0::real) < 10 ^ f"
    by simp
  have fl: "\<bar>real_of_int \<lfloor>y + 1 / 2\<rfloor> - y\<bar> \<le> 1 / 2" for y :: real
    by linarith
  have "\<bar>real_of_int (toFixed f x) - x * 10 ^ f\<bar> \<le> 1 / 2"
  proof (cases "x < 0")
    case True
    then have "real_of_int (toFixed f x) = - real_of_int \<lfloor>- (x * 10 ^ f) + 1 / 2\<rfloor>"
      by (simp add: toFixed_def)
    with fl [of "- (x * 10 ^ f)"] show ?thesis
      by linarith
  next
    case False
    then have "real_of_int (toFixed f x) = real_of_int \<lfloor>x * 10 ^ f + 1 / 2\<rfloor>"
      by (simp add: toFixed_def)
    with fl [of "x * 10 ^ f"] show ?thesis
      by linarith
  qed
  then have "\<bar>real_of_int (toFixed f x) - x * 10 ^ f\<bar> / 10 ^ f \<le> (1 / 2) / 10 ^ f"
    by (rule divide_right_mono) simp
  moreover have "\<bar>real_of_int (toFixed f x) - x * 10 ^ f\<bar> / 10 ^ f
      = \<bar>real_of_int (toFixed f x) / 10 ^ f - x\<bar>"
  proof -
    have "real_of_int (toFixed f x) / 10 ^ f - x
        = (real_of_int (toFixed f x) - x * 10 ^ f) / 10 ^ f"
      by (simp add: diff_divide_distrib)
    then have "\<bar>real_of_int (toFixed f x) / 10 ^ f - x\<bar>
        = \<bar>(real_of_int (toFixed f x) - x * 10 ^ f) / 10 ^ f\<bar>"
      by (rule arg_cong)
    also have "\<dots> = \<bar>real_of_int (toFixed f x) - x * 10 ^ f\<bar> / 10 ^ f"
      by (simp only: abs_divide abs_of_pos [OF p])
    finally show ?thesis
      by (rule sym)
  qed
  ultimately show ?thesis
    by simp
qed

text \<open>
  C4: the moving observer's reading is computed from the state that is read: it is
  \<open>toFixed 2\<close> of the elapsed time divided by the time dilation of the current velocity,
  so within half a hundredth of that quotient; right after a slider change it is computed
  with the velocity mapped from the new slider value and the same elapsed time; with an
  elapsed time of 10 and velocity \<open>0.6\<close> the quotient is 8 and the reading is 8.00.
\<close>

theorem moving_time_read:
  "movingTime s = toFixed 2 (elapsedTime s / timeDilation (velocity s))
   \<and> \<bar>real_of_int (movingTime s) / 100 - elapsedTime s / timeDilation (velocity s)\<bar> \<le> 1 / 200
   \<and> movingTime (handleSliderChange x s)
       = toFixed 2 (elapsedTime s / timeDilation (velocity (handleSliderChange x s)))
   \<and> (x \<noteq> sliderValue s \<longrightarrow>
        movingTime (handleSliderChange x s)
          = toFixed 2 (elapsedTime s / timeDilation (newVelocity (useLogarithmic s) x)))
   \<and> (elapsedTime s = 10 \<and> velocity s = 0.6 \<longrightarrow>
        elapsedTime s / timeDilation (velocity s) = 8 \<and> movingTime s = 800)"
proof (intro conjI impI)
  show "movingTime s = toFixed 2 (elapsedTime s / timeDilation (velocity s))"
    by (simp add: movingTime_def)
  show "\<bar>real_of_int (movingTime s) / 100 - elapsedTime s / timeDilation (velocity s)\<bar> \<le> 1 / 200"
    using toFixed_near [of 2 "elapsedTime s / timeDilation (velocity s)"]
    by (simp add: movingTime_def)
  show "movingTime (handleSliderChange x s)
        = toFixed 2 (elapsedTime s / timeDilation (velocity (handleSliderChange x s)))"
    by (simp add: movingTime_def handleSliderChange_def commitVelocity_def velocityEffect_def)
next
  assume "x \<noteq> sliderValue s"
  then show "movingTime (handleSliderChange x s)
      = toFixed 2 (elapsedTime s / timeDilation (newVelocity (useLogarithmic s) x))"
    by (simp add: movingTime_def handleSliderChange_def commitVelocity_def velocityEffect_def)
next
  assume h: "elapsedTime s = 10 \<and> velocity s = 0.6"
  then have e: "elapsedTime s = 10" and v: "velocity s = 0.6"
    by blast+
  show m: "elapsedTime s / timeDilation (velocity s) = 8"
    by (simp only: timeDilation_def e v gamma_three_fifths) simp
  show "movingTime s = 800"
    by (simp only: movingTime_def m) (simp add: toFixed_def)
qed

text \<open>
  A run that reaches such a state: slider to \<open>0.625\<close>, Start, callbacks at 1000 and 11000.
\<close>

lemma sample_run:
  "elapsedTime (ticks [1000, 11000] (toggleAnimation (handleSliderChange 0.625 initial))) = 10
   \<and> velocity (ticks [1000, 11000] (toggleAnimation (handleSliderChange 0.625 initial))) = 0.6
   \<and> sliderValue (ticks [1000, 11000] (toggleAnimation (handleSliderChange 0.625 initial))) = 0.625
   \<and> \<not> useLogarithmic (ticks [1000, 11000] (toggleAnimation (handleSliderChange 0.625 initial)))"
  by (simp add: clock_defs initial_def Let_def handleSliderChange_def commitVelocity_def
      velocityEffect_def newVelocity_def)

text \<open>At velocity \<open>0.5\<close> ten stationary seconds read 8.66 on the moving clock.\<close>

lemma moving_time_at_half: "toFixed 2 (10 / timeDilation 0.5) = 866"
proof -
  have g: "10 / timeDilation 0.5 = 5 * sqrt 3"
  proof -
    have "1 - 0.5 * 0.5 = (3::real) / 2\<^sup>2"
      by (simp add: power2_eq_square)
    then have "sqrt (1 - 0.5 * 0.5) = sqrt 3 / 2"
      by (simp only: real_sqrt_divide real_sqrt_abs)
    then show ?thesis
      by (simp only: timeDilation_def gamma_def) simp
  qed
  have lo: "1731 / 1000 \<le> sqrt 3"
    by (rule real_le_rsqrt) (simp add: power2_eq_square)
  have hi: "sqrt 3 \<le> 17325 / 10000"
    by (rule real_le_lsqrt) (simp_all add: power2_eq_square)
  have "\<lfloor>5 * sqrt 3 * 10\<^sup>2 + 1 / 2\<rfloor> = 866"
    using lo hi by (simp add: floor_eq_iff)
  then show ?thesis
    using lo by (simp only: g toFixed_def) simp
qed

theorem moving_time_read_witness:
  "elapsedTime (ticks [1000, 11000] (toggleAnimation (handleSliderChange 0.625 initial))) = 10
   \<and> velocity (ticks [1000, 11000] (toggleAnimation (handleSliderChange 0.625 initial))) = 0.6
   \<and> movingTime (ticks [1000, 11000] (toggleAnimation (handleSliderChange 0.625 initial))) = 800
   \<and> 0.5 \<noteq> sliderValue (ticks [1000, 11000] (toggleAnimation (handleSliderChange 0.625 initial)))
   \<and> movingTime (handleSliderChange 0.5
        (ticks [1000, 11000] (toggleAnimation (handleSliderChange 0.625 initial)))) = 866"
proof -
  let ?s = "ticks [1000, 11000] (toggleAnimation (handleSliderChange 0.625 initial))"
  have a: "elapsedTime ?s = 10 \<and> velocity ?s = 0.6"
    using sample_run by blast
  have b: "0.5 \<noteq> sliderValue ?s"
    using sample_run by simp
  have c: "newVelocity (useLogarithmic ?s) 0.5 = 0.5"
    using sample_run by (simp add: newVelocity_def)
  note th = moving_time_read [of ?s "0.5"]
  from th a have m: "movingTime ?s = 800"
    by blast
  from th b have "movingTime (handleSliderChange 0.5 ?s)
      = toFixed 2 (elapsedTime ?s / timeDilation (newVelocity (useLogarithmic ?s) 0.5))"
    by blast
  then have n: "movingTime (handleSliderChange 0.5 ?s) = 866"
    using a by (simp only: c moving_time_at_half)
  from a b m n show ?thesis
    by blast
qed

end
